theory Spec2Isabelle
  imports Complex_Main "HOL-Library.Word"
begin

unbundle bit_operations_syntax

section \<open>Run-time failures\<close>

text \<open>
  A Go panic is a value of type \<open>panic\<close>; a function that may panic returns
  \<open>panic + 'a\<close> with the panic on the left.  \<open>Diverged\<close> is not a panic of the
  Go runtime: it marks a pointer traversal that would run through more nodes than were
  ever allocated, that is, a traversal caught in a cycle.
\<close>

datatype panic =
    IndexOutOfRange
  | NilDereference
  | NotReached
  | CannotMarshal
  | Diverged

definition pbind :: "panic + 'a \<Rightarrow> ('a \<Rightarrow> panic + 'b) \<Rightarrow> panic + 'b" where
  "pbind m f = (case m of Inl p \<Rightarrow> Inl p | Inr x \<Rightarrow> f x)"

text \<open>Bounds-checked slice read \<open>xs[i]\<close> and write \<open>xs[i] = v\<close>.\<close>

definition idx :: "'a list \<Rightarrow> nat \<Rightarrow> panic + 'a" where
  "idx xs i = (if i < length xs then Inr (xs ! i) else Inl IndexOutOfRange)"

definition upd :: "'a list \<Rightarrow> nat \<Rightarrow> 'a \<Rightarrow> panic + 'a list" where
  "upd xs i v = (if i < length xs then Inr (xs[i := v]) else Inl IndexOutOfRange)"

text \<open>
  Conversion \<open>int(f)\<close> of a float to an integer truncates towards zero, and \<open>%\<close>
  is the remainder of the truncating division.  A \<open>float64\<close> is modelled by a real
  number: the products and quotients of the quantile code are taken exactly.
\<close>

definition go_int :: "real \<Rightarrow> int" where
  "go_int x = (if 0 \<le> x then \<lfloor>x\<rfloor> else \<lceil>x\<rceil>)"

definition go_rem :: "int \<Rightarrow> int \<Rightarrow> int" where
  "go_rem a b = sgn a * (\<bar>a\<bar> mod \<bar>b\<bar>)"

section \<open>quantile/summary.go: the skiplist\<close>

definition EPSILON :: real where
  "EPSILON = 1 / 100"

text \<open>
  \<open>Entry\<close> is the tuple of the summary.  \<open>V\<close> is an \<open>int64\<close> that is only
  copied and compared, \<open>G\<close> and \<open>Delta\<close> are Go \<open>int\<close>s; all three are
  mathematical integers here.  \<open>Samples\<close> is a slice of \<open>uint64\<close>; the nil slice
  and the empty slice are both \<open>[]\<close>.
\<close>

record Entry =
  V :: int
  G :: int
  Delta :: int
  Samples :: "64 word list"

definition zeroEntry :: Entry where
  "zeroEntry = \<lparr>V = 0, G = 0, Delta = 0, Samples = []\<rparr>"

text \<open>
  The nodes of a skiplist live in a store, a list indexed by address; a pointer is
  \<open>Some\<close> address or \<open>None\<close> for nil.  A new node takes the next free address.
  The fields \<open>value\<close>, \<open>next\<close> and \<open>prev\<close> of the source are \<open>node_value\<close>,
  \<open>node_next\<close> and \<open>node_prev\<close>.
\<close>

type_synonym ptr = "nat option"

record SkiplistNode =
  node_value :: Entry
  node_next :: "ptr list"
  node_prev :: "ptr list"

type_synonym store = "SkiplistNode list"

record Skiplist =
  height :: nat
  head :: nat
  nodes :: store

definition maxHeight :: nat where
  "maxHeight = 31"

definition NewSkiplist :: Skiplist where
  "NewSkiplist =
     \<lparr>height = 0, head = 0,
      nodes = [\<lparr>node_value = zeroEntry, node_next = replicate maxHeight None, node_prev = []\<rparr>]\<rparr>"

definition set_next :: "store \<Rightarrow> nat \<Rightarrow> nat \<Rightarrow> ptr \<Rightarrow> panic + store" where
  "set_next st a i p =
     pbind (upd (node_next (st ! a)) i p) (\<lambda>nx. Inr (st[a := (st ! a)\<lparr>node_next := nx\<rparr>]))"

definition set_prev :: "store \<Rightarrow> nat \<Rightarrow> nat \<Rightarrow> ptr \<Rightarrow> panic + store" where
  "set_prev st a i p =
     pbind (upd (node_prev (st ! a)) i p) (\<lambda>pv. Inr (st[a := (st ! a)\<lparr>node_prev := pv\<rparr>]))"

definition set_value :: "store \<Rightarrow> nat \<Rightarrow> Entry \<Rightarrow> store" where
  "set_value st a e = st[a := (st ! a)\<lparr>node_value := e\<rparr>]"

text \<open>
  \<open>rand.Int31()\<close> yields a non-negative 31-bit integer; the outcome of the generator is
  an argument \<open>draw\<close> of the model, reduced to 31 bits.  \<open>trailing_ones\<close> is the loop
  \<open>for n&1 == 1 { level++; n >>= 1 }\<close>.
\<close>

definition Int31 :: "nat \<Rightarrow> nat" where
  "Int31 draw = draw mod 2 ^ 31"

function trailing_ones :: "nat \<Rightarrow> nat" where
  "trailing_ones n = (if n mod 2 = 1 then Suc (trailing_ones (n div 2)) else 0)"
  by pat_completeness auto
termination
  by (relation "measure (\<lambda>n. n)") auto

text \<open>
  The inner loop of \<open>Insert\<close>:
  \<open>for curr.next[i] != nil && e.V >= curr.next[i].value.V { curr = curr.next[i] }\<close>.
  The loop does not write, so it either stops within as many steps as there are nodes
  or never stops; the first argument is that number of steps.
\<close>

fun advance :: "nat \<Rightarrow> store \<Rightarrow> int \<Rightarrow> nat \<Rightarrow> nat \<Rightarrow> panic + nat" where
  "advance 0 st v i cur =
     (case idx (node_next (st ! cur)) i of
        Inl p \<Rightarrow> Inl p
      | Inr None \<Rightarrow> Inr cur
      | Inr (Some nx) \<Rightarrow> if v \<ge> V (node_value (st ! nx)) then Inl Diverged else Inr cur)"
| "advance (Suc fuel) st v i cur =
     (case idx (node_next (st ! cur)) i of
        Inl p \<Rightarrow> Inl p
      | Inr None \<Rightarrow> Inr cur
      | Inr (Some nx) \<Rightarrow>
          if v \<ge> V (node_value (st ! nx)) then advance fuel st v i nx else Inr cur)"

text \<open>
  One round of the outer loop of \<open>Insert\<close>, at level \<open>i\<close>: the search, then, unless
  \<open>i > level\<close>, the four pointer assignments that link \<open>node\<close> behind \<open>cur\<close>.
\<close>

definition link_level :: "nat \<Rightarrow> nat \<Rightarrow> nat \<Rightarrow> int \<Rightarrow> store \<Rightarrow> nat \<Rightarrow> panic + (store \<times> nat)" where
  "link_level i level node v st cur0 =
     pbind (advance (length st) st v i cur0) (\<lambda>cur.
       if i > level then Inr (st, cur)
       else
         pbind (idx (node_next (st ! cur)) i) (\<lambda>cn.
         pbind (set_next st node i cn) (\<lambda>st1.
         pbind (case cn of
                  None \<Rightarrow> Inr st1
                | Some c \<Rightarrow>
                    pbind (idx (node_prev (st1 ! c)) i) (\<lambda>cp.
                      case cp of None \<Rightarrow> Inr st1 | Some _ \<Rightarrow> set_prev st1 c i (Some node)))
           (\<lambda>st2.
         pbind (set_next st2 cur i (Some node)) (\<lambda>st3.
         pbind (set_prev st3 node i (Some cur)) (\<lambda>st4.
           Inr (st4, cur)))))))"

text \<open>The outer loop \<open>for i := s.height; i >= 0; i--\<close>.\<close>

fun descend :: "nat \<Rightarrow> nat \<Rightarrow> nat \<Rightarrow> int \<Rightarrow> store \<Rightarrow> nat \<Rightarrow> panic + store" where
  "descend 0 level node v st cur =
     pbind (link_level 0 level node v st cur) (\<lambda>(st', cur'). Inr st')"
| "descend (Suc i) level node v st cur =
     pbind (link_level (Suc i) level node v st cur) (\<lambda>(st', cur').
       descend i level node v st' cur')"

text \<open>
  \<open>Skiplist.Insert\<close> returns the list and the address of the new node.
\<close>

definition Skiplist_Insert :: "nat \<Rightarrow> Entry \<Rightarrow> Skiplist \<Rightarrow> panic + (Skiplist \<times> nat)" where
  "Skiplist_Insert draw e s =
     (let level0 = trailing_ones (Int31 draw);
          h = (if level0 > height s then height s + 1 else height s);
          level = (if level0 > height s then h else level0);
          node = length (nodes s);
          st = nodes s @
            [\<lparr>node_value = e, node_next = replicate (level + 1) None,
              node_prev = replicate (level + 1) None\<rparr>]
      in pbind (descend h level node (V e) st (head s)) (\<lambda>st'.
           Inr (s\<lparr>height := h, nodes := st'\<rparr>, node)))"

text \<open>\<open>Skiplist.Remove\<close>: the loop \<open>for i := range node.next\<close>.\<close>

definition unlink_level :: "nat \<Rightarrow> nat \<Rightarrow> store \<Rightarrow> panic + store" where
  "unlink_level node i st =
     pbind (idx (node_prev (st ! node)) i) (\<lambda>prev.
     pbind (idx (node_next (st ! node)) i) (\<lambda>nxt.
     pbind (case prev of None \<Rightarrow> Inr st | Some p \<Rightarrow> set_next st p i nxt) (\<lambda>st1.
     pbind (case nxt of None \<Rightarrow> Inr st1 | Some n \<Rightarrow> set_prev st1 n i prev) (\<lambda>st2.
     pbind (set_next st2 node i None) (\<lambda>st3.
       set_prev st3 node i None)))))"

fun unlink_levels :: "nat \<Rightarrow> nat list \<Rightarrow> store \<Rightarrow> panic + store" where
  "unlink_levels node [] st = Inr st"
| "unlink_levels node (i # is) st =
     pbind (unlink_level node i st) (\<lambda>st'. unlink_levels node is st')"

definition Skiplist_Remove :: "nat \<Rightarrow> Skiplist \<Rightarrow> panic + Skiplist" where
  "Skiplist_Remove node s =
     pbind (unlink_levels node [0..<length (node_next (nodes s ! node))] (nodes s)) (\<lambda>st.
       Inr (s\<lparr>nodes := st\<rparr>))"

section \<open>quantile/summary.go: the summary\<close>

text \<open>
  \<open>data\<close> is a pointer to the skiplist, nil in a \<open>Summary\<close> that was never
  initialised.  Every skiplist has a store of its own: \<open>Insert\<close> copies the entry
  into a fresh node, so no node is shared between two lists.
\<close>

record Summary =
  data :: "Skiplist option"
  EncodedData :: "Entry list"
  N :: int

definition NewSummary :: Summary where
  "NewSummary = \<lparr>data = Some NewSkiplist, EncodedData = [], N = 0\<rparr>"

text \<open>
  \<open>compress\<close>.  The loop
  \<open>for elt := s.data.head.next[0]; elt != nil && elt.next[0] != nil; { ...; elt = next }\<close>
  visits every node at most once; the first argument bounds the number of rounds by the
  number of nodes.
\<close>

fun compress_loop :: "nat \<Rightarrow> int \<Rightarrow> int \<Rightarrow> Skiplist \<Rightarrow> ptr \<Rightarrow> panic + Skiplist" where
  "compress_loop fuel epsN missing sl None = Inr sl"
| "compress_loop fuel epsN missing sl (Some elt) =
     pbind (idx (node_next (nodes sl ! elt)) 0) (\<lambda>nx.
       case nx of
         None \<Rightarrow> Inr sl
       | Some nxt \<Rightarrow>
           (case fuel of
              0 \<Rightarrow> Inl Diverged
            | Suc fuel' \<Rightarrow>
                (let t = node_value (nodes sl ! elt);
                     nt = node_value (nodes sl ! nxt)
                 in if V t = V nt then
                      (let missing1 = missing + G nt;
                           nt1 = nt\<lparr>Delta := Delta nt + missing1\<rparr>;
                           nt2 = nt1\<lparr>G := G t\<rparr>;
                           nt3 = nt2\<lparr>Samples := Samples nt2 @ Samples t\<rparr>
                       in pbind (Skiplist_Remove elt (sl\<lparr>nodes := set_value (nodes sl) nxt nt3\<rparr>))
                            (\<lambda>sl'. compress_loop fuel' epsN missing1 sl' (Some nxt)))
                    else if G t + G nt + missing + Delta nt < epsN then
                      (let nt1 = nt\<lparr>G := G nt + (G t + missing)\<rparr>;
                           nt2 = nt1\<lparr>Samples := Samples nt1 @ Samples t\<rparr>
                       in pbind (Skiplist_Remove elt (sl\<lparr>nodes := set_value (nodes sl) nxt nt2\<rparr>))
                            (\<lambda>sl'. compress_loop fuel' epsN 0 sl' (Some nxt)))
                    else
                      (let nt1 = nt\<lparr>G := G nt + missing\<rparr>
                       in compress_loop fuel' epsN 0 (sl\<lparr>nodes := set_value (nodes sl) nxt nt1\<rparr>)
                            (Some nxt)))))"

definition compress :: "Summary \<Rightarrow> panic + Summary" where
  "compress s =
     (case data s of
        None \<Rightarrow> Inl NilDereference
      | Some sl \<Rightarrow>
          (let epsN = go_int (2 * EPSILON * real_of_int (N s)) in
           pbind (idx (node_next (nodes sl ! head sl)) 0) (\<lambda>first.
           pbind (compress_loop (length (nodes sl)) epsN 0 sl first) (\<lambda>sl'.
             Inr (s\<lparr>data := Some sl'\<rparr>)))))"

text \<open>\<open>Insert(v, t)\<close>; \<open>draw\<close> is the outcome of its one call of \<open>rand.Int31()\<close>.\<close>

definition Insert :: "nat \<Rightarrow> int \<Rightarrow> 64 word \<Rightarrow> Summary \<Rightarrow> panic + Summary" where
  "Insert draw v t s =
     (case data s of
        None \<Rightarrow> Inl NilDereference
      | Some sl \<Rightarrow>
          pbind (Skiplist_Insert draw \<lparr>V = v, G = 1, Delta = 0, Samples = [t]\<rparr> sl) (\<lambda>(sl1, eptr).
            (let n1 = N s + 1 in
             pbind (idx (node_prev (nodes sl1 ! eptr)) 0) (\<lambda>p0.
             pbind (if p0 \<noteq> Some (head sl1)
                    then pbind (idx (node_next (nodes sl1 ! eptr)) 0) (\<lambda>n0.
                           if n0 \<noteq> None
                           then Inr (sl1\<lparr>nodes := set_value (nodes sl1) eptr
                                  ((node_value (nodes sl1 ! eptr))
                                     \<lparr>Delta := go_int (2 * EPSILON * real_of_int n1)\<rparr>)\<rparr>)
                           else Inr sl1)
                    else Inr sl1) (\<lambda>sl2.
               (let s2 = s\<lparr>data := Some sl2, N := n1\<rparr> in
                if go_rem n1 (go_int (1 / (2 * EPSILON))) = 0 then compress s2 else Inr s2))))))"

text \<open>
  The traversals of level 0.  \<open>chain\<close> collects the values from a pointer on, as the
  loops of \<open>MarshalJSON\<close>, \<open>GobEncode\<close> and \<open>Merge\<close> do from \<open>head\<close>.
\<close>

fun chain :: "nat \<Rightarrow> store \<Rightarrow> ptr \<Rightarrow> panic + Entry list" where
  "chain fuel st None = Inr []"
| "chain 0 st (Some a) = Inl Diverged"
| "chain (Suc fuel) st (Some a) =
     pbind (idx (node_next (st ! a)) 0) (\<lambda>nx.
     pbind (chain fuel st nx) (\<lambda>es. Inr (node_value (st ! a) # es)))"

text \<open>\<open>Quantile(q)\<close> returns the value and its samples.\<close>

fun quantile_loop :: "nat \<Rightarrow> int \<Rightarrow> int \<Rightarrow> int \<Rightarrow> store \<Rightarrow> ptr \<Rightarrow> panic + (int \<times> 64 word list)" where
  "quantile_loop fuel r epsN rmin st None = Inl NotReached"
| "quantile_loop 0 r epsN rmin st (Some elt) = Inl Diverged"
| "quantile_loop (Suc fuel) r epsN rmin st (Some elt) =
     (let t = node_value (st ! elt);
          rmin1 = rmin + G t
      in pbind (idx (node_next (st ! elt)) 0) (\<lambda>n.
           case n of
             None \<Rightarrow> Inr (V t, Samples t)
           | Some nn \<Rightarrow>
               (let nv = node_value (st ! nn) in
                if r + epsN < rmin1 + G nv + Delta nv then
                  (if r + epsN < rmin1 + G nv then Inr (V t, Samples t)
                   else Inr (V nv, Samples nv))
                else quantile_loop fuel r epsN rmin1 st n)))"

definition Quantile :: "real \<Rightarrow> Summary \<Rightarrow> panic + (int \<times> 64 word list)" where
  "Quantile q s =
     (case data s of
        None \<Rightarrow> Inl NilDereference
      | Some sl \<Rightarrow>
          (let r = go_int (q * real_of_int (N s) + 1 / 2);
               epsN = go_int (EPSILON * real_of_int (N s))
           in pbind (idx (node_next (nodes sl ! head sl)) 0) (\<lambda>first.
                quantile_loop (length (nodes sl)) r epsN 0 (nodes sl) first)))"

record SummarySlice =
  Start :: int
  End :: int
  Weight :: int
  SSamples :: "64 word list"

fun slices_loop :: "nat \<Rightarrow> store \<Rightarrow> nat \<Rightarrow> ptr \<Rightarrow> panic + SummarySlice list" where
  "slices_loop fuel st lst None = Inr []"
| "slices_loop 0 st lst (Some c) = Inl Diverged"
| "slices_loop (Suc fuel) st lst (Some c) =
     (let ss = \<lparr>Start = V (node_value (st ! lst)), End = V (node_value (st ! c)),
                Weight = G (node_value (st ! c)) + Delta (node_value (st ! c)) - 1,
                SSamples = Samples (node_value (st ! c))\<rparr>
      in pbind (idx (node_next (st ! c)) 0) (\<lambda>nx.
         pbind (slices_loop fuel st c nx) (\<lambda>rest. Inr (ss # rest))))"

definition BySlices :: "Summary \<Rightarrow> panic + SummarySlice list" where
  "BySlices s =
     (case data s of
        None \<Rightarrow> Inl NilDereference
      | Some sl \<Rightarrow>
          pbind (idx (node_next (nodes sl ! head sl)) 0) (\<lambda>cur.
            slices_loop (length (nodes sl)) (nodes sl) (head sl) cur))"

text \<open>
  \<open>Merge(s2)\<close>.  The loop starts at \<open>s2.data.head\<close>; its \<open>k\<close>-th call of
  \<open>Insert\<close> draws \<open>draws k\<close>.
\<close>

fun insert_all :: "(nat \<Rightarrow> nat) \<Rightarrow> nat \<Rightarrow> Entry list \<Rightarrow> Skiplist \<Rightarrow> panic + Skiplist" where
  "insert_all draws k [] sl = Inr sl"
| "insert_all draws k (e # es) sl =
     pbind (Skiplist_Insert (draws k) e sl) (\<lambda>(sl', node). insert_all draws (Suc k) es sl')"

definition Merge :: "(nat \<Rightarrow> nat) \<Rightarrow> Summary \<Rightarrow> Summary \<Rightarrow> panic + Summary" where
  "Merge draws s2 s =
     (case data s2 of
        None \<Rightarrow> Inr s
      | Some sl2 \<Rightarrow>
          if N s2 = 0 then Inr s
          else
            (let n1 = N s + N s2 in
             pbind (chain (length (nodes sl2)) (nodes sl2) (Some (head sl2))) (\<lambda>es.
               case data s of
                 None \<Rightarrow> Inl NilDereference
               | Some sl \<Rightarrow>
                   pbind (insert_all draws 0 es sl) (\<lambda>sl'.
                     compress (s\<lparr>data := Some sl', N := n1\<rparr>)))))"

text \<open>
  Serialisation.  The codecs \<open>encoding/json\<close> and \<open>encoding/gob\<close> are libraries,
  taken as parameters: \<open>json_Marshal\<close> turns the flattened entries and \<open>n\<close> into a
  payload; \<open>json_Unmarshal\<close> fills a value \<open>ss\<close> of the private type \<open>summary\<close>
  (the same struct) and returns it with the error, if any.
\<close>

definition MarshalJSON :: "(Entry list \<Rightarrow> int \<Rightarrow> 'b) \<Rightarrow> Summary \<Rightarrow> panic + 'b" where
  "MarshalJSON json_Marshal s =
     (case data s of
        None \<Rightarrow> Inl CannotMarshal
      | Some sl \<Rightarrow>
          pbind (chain (length (nodes sl)) (nodes sl) (Some (head sl))) (\<lambda>es.
            Inr (json_Marshal es (N s))))"

definition UnmarshalJSON ::
  "('b \<Rightarrow> Summary \<times> 'e option) \<Rightarrow> (nat \<Rightarrow> nat) \<Rightarrow> 'b \<Rightarrow> Summary \<Rightarrow> panic + (Summary \<times> 'e option)" where
  "UnmarshalJSON json_Unmarshal draws b s =
     (case json_Unmarshal b of
        (ss, Some err) \<Rightarrow> Inr (s, Some err)
      | (ss, None) \<Rightarrow>
          pbind (insert_all draws 0 (EncodedData ss) NewSkiplist) (\<lambda>sl.
            Inr (ss\<lparr>data := Some sl\<rparr>, None)))"

definition GobDecode ::
  "('b \<Rightarrow> Summary \<times> 'e option) \<Rightarrow> (nat \<Rightarrow> nat) \<Rightarrow> 'b \<Rightarrow> Summary \<Rightarrow> panic + (Summary \<times> 'e option)" where
  "GobDecode gob_Decode draws b s =
     (case gob_Decode b of
        (ss, Some err) \<Rightarrow> Inr (s, Some err)
      | (ss, None) \<Rightarrow>
          pbind (insert_all draws 0 (EncodedData ss) NewSkiplist) (\<lambda>sl.
            Inr (ss\<lparr>data := Some sl\<rparr>, None)))"

section \<open>sampler/signature.go\<close>

text \<open>
  Modelled from the spec: the declaration of \<open>model.Span\<close> is not among the sources;
  the record has the fields the sampler reads.  \<open>Error\<close> is a 32-bit integer, of which
  \<open>byte(span.Error)\<close> keeps the low eight bits.
\<close>

record Span =
  Service :: string
  Name :: string
  Resource :: string
  Error :: "32 word"
  ParentID :: "64 word"
  TraceID :: "64 word"

type_synonym Trace = "Span list"
type_synonym Signature = "64 word"
type_synonym spanHash = "32 word"

text \<open>
  The sampler.  A \<open>float64\<close> is a real number, and \<open>rnd\<close>, a parameter of the
  scoring functions, is the rounding that every floating-point operation applies to
  its exact result.  The clock and the random generator are read through arguments:
  \<open>now\<close> is \<open>float64(time.Now().UnixNano())/1e9\<close> and \<open>u\<close> is
  \<open>rand.Float64()\<close>.  The mutex is not modelled: the operations run one at a time.
  In \<open>GetTimeScore\<close> a positive \<open>delta\<close> over \<open>theta = 0\<close> is \<open>+Inf\<close>, of
  which \<open>math.Min\<close> with 5 is 5; a negative \<open>theta\<close> makes the score NaN, which the
  reals do not have: the model is that of \<open>theta \<ge> 0\<close>.
\<close>

record SignatureSampler =
  lastTSBySignature :: "Signature \<rightharpoonup> real"
  sampledTraces :: "Trace list"
  sMin :: real
  theta :: real
  jitter :: real

definition GetTimeScore :: "(real \<Rightarrow> real) \<Rightarrow> SignatureSampler \<Rightarrow> Signature \<Rightarrow> real \<Rightarrow> real" where
  "GetTimeScore rnd s signature now =
     (case lastTSBySignature s signature of
        None \<Rightarrow> 5
      | Some ts \<Rightarrow>
          (let delta = rnd (now - ts) in
           if delta \<le> 0 then 0
           else if theta s = 0 then 5
           else min (rnd (sqrt (rnd (delta / theta s)))) 5))"

definition GetScore :: "(real \<Rightarrow> real) \<Rightarrow> SignatureSampler \<Rightarrow> Signature \<Rightarrow> real \<Rightarrow> real \<Rightarrow> real" where
  "GetScore rnd s signature now u =
     (let timeScore = GetTimeScore rnd s signature now in
      rnd (timeScore * rnd (1 + rnd (jitter s * rnd (1 - rnd (2 * u))))))"



text \<open>32-bit FNV-1a, as \<open>hash/fnv\<close> computes it.\<close>

definition fnv_offset32 :: spanHash where
  "fnv_offset32 = 2166136261"

definition fnv_prime32 :: spanHash where
  "fnv_prime32 = 16777619"

definition fnv_Write :: "spanHash \<Rightarrow> 8 word list \<Rightarrow> spanHash" where
  "fnv_Write h bs = foldl (\<lambda>h b. (h XOR ucast b) * fnv_prime32) h bs"

definition bytes_of :: "string \<Rightarrow> 8 word list" where
  "bytes_of str = map (\<lambda>c. of_nat (of_char c)) str"

definition computeSpanHash :: "Span \<Rightarrow> spanHash" where
  "computeSpanHash sp =
     fnv_Write (fnv_Write (fnv_Write fnv_offset32 (bytes_of (Service sp))) (bytes_of (Name sp)))
       [ucast (Error sp)]"

definition computeRootHash :: "Span \<Rightarrow> spanHash" where
  "computeRootHash sp =
     fnv_Write (fnv_Write (fnv_Write (fnv_Write fnv_offset32 (bytes_of (Service sp)))
       (bytes_of (Name sp))) (bytes_of (Resource sp))) [ucast (Error sp)]"

text \<open>A slice read at an index that was computed by a subtraction.\<close>

definition idxi :: "'a list \<Rightarrow> int \<Rightarrow> panic + 'a" where
  "idxi xs i = (if 0 \<le> i \<and> i < int (length xs) then Inr (xs ! nat i) else Inl IndexOutOfRange)"

text \<open>
  \<open>getRoot\<close>: the loop \<open>for i := range trace\<close> with \<open>n\<close> rounds left, then the
  fallback \<open>trace[len(trace)-1]\<close>.
\<close>

fun getRoot_loop :: "nat \<Rightarrow> nat \<Rightarrow> Trace \<Rightarrow> panic + Span option" where
  "getRoot_loop 0 i trace = Inr None"
| "getRoot_loop (Suc n) i trace =
     pbind (idxi trace (int (length trace) - 1 - int i)) (\<lambda>sp.
       if ParentID sp = 0 then Inr (Some sp) else getRoot_loop n (Suc i) trace)"

definition getRoot :: "Trace \<Rightarrow> panic + Span" where
  "getRoot trace =
     pbind (getRoot_loop (length trace) 0 trace) (\<lambda>found.
       case found of
         Some sp \<Rightarrow> Inr sp
       | None \<Rightarrow> idxi trace (int (length trace) - 1))"

text \<open>
  The in-place deduplication
  \<open>for i := 1; i < len(spanHashes); i++ { if spanHashes[i] != last { ... } }\<close>
  with \<open>n\<close> rounds left, and the loop that folds the first \<open>idx\<close> hashes into
  \<open>traceHash\<close>.
\<close>

fun dedupe :: "nat \<Rightarrow> nat \<Rightarrow> spanHash list \<Rightarrow> spanHash \<Rightarrow> nat \<Rightarrow> panic + (spanHash list \<times> nat)" where
  "dedupe 0 i spanHashes lst k = Inr (spanHashes, k)"
| "dedupe (Suc n) i spanHashes lst k =
     pbind (idx spanHashes i) (\<lambda>x.
       if x \<noteq> lst
       then pbind (upd spanHashes k x) (\<lambda>spanHashes'. dedupe n (Suc i) spanHashes' x (Suc k))
       else dedupe n (Suc i) spanHashes lst k)"

fun xor_all :: "nat \<Rightarrow> nat \<Rightarrow> spanHash list \<Rightarrow> spanHash \<Rightarrow> panic + spanHash" where
  "xor_all 0 i spanHashes traceHash = Inr traceHash"
| "xor_all (Suc n) i spanHashes traceHash =
     pbind (idx spanHashes i) (\<lambda>x. xor_all n (Suc i) spanHashes (x XOR traceHash))"

definition ComputeSignature :: "Trace \<Rightarrow> panic + Signature" where
  "ComputeSignature trace =
     pbind (getRoot trace) (\<lambda>rt.
       (let traceHash = computeRootHash rt;
            spanHashes = sort (replicate (length trace) 0 @ map computeSpanHash trace)
        in pbind (idx spanHashes 0) (\<lambda>lst.
           pbind (dedupe (length spanHashes - 1) 1 spanHashes lst 1) (\<lambda>(deduped, k).
           pbind (xor_all k 0 deduped traceHash) (\<lambda>h. Inr (ucast h))))))"

text \<open>
  \<open>AddTrace\<close>: \<open>now1\<close> is the clock as \<open>GetTimeScore\<close> reads it, \<open>now2\<close> as the
  assignment to \<open>lastTSBySignature\<close> does.  The log line reads \<open>trace[0].TraceID\<close>.
\<close>

definition AddTrace ::
  "(real \<Rightarrow> real) \<Rightarrow> real \<Rightarrow> real \<Rightarrow> real \<Rightarrow> Trace \<Rightarrow> SignatureSampler \<Rightarrow> panic + SignatureSampler" where
  "AddTrace rnd now1 now2 u trace s =
     pbind (ComputeSignature trace) (\<lambda>signature.
       (let score = GetScore rnd s signature now1 u;
            s' = (if score > sMin s
                  then s\<lparr>sampledTraces := sampledTraces s @ [trace],
                         lastTSBySignature := (lastTSBySignature s)(signature \<mapsto> now2)\<rparr>
                  else s)
        in pbind (idx trace 0) (\<lambda>first. Inr s')))"

definition Flush :: "SignatureSampler \<Rightarrow> Trace list \<times> SignatureSampler" where
  "Flush s = (sampledTraces s, s\<lparr>sampledTraces := []\<rparr>)"

section \<open>Inputs of the examples\<close>

definition span0 :: Span where
  "span0 = \<lparr>Service = ''web'', Name = ''request'', Resource = ''/'', Error = 0,
             ParentID = 0, TraceID = 1\<rparr>"

definition sampler0 :: SignatureSampler where
  "sampler0 = \<lparr>lastTSBySignature = Map.empty, sampledTraces = [], sMin = 1, theta = 1,
                jitter = 1 / 2\<rparr>"



section \<open>The sampler: signatures, scores, buffer\<close>

lemma pbind_Inl [simp]: "pbind (Inl p) f = Inl p"
  by (simp add: pbind_def)

lemma pbind_Inr [simp]: "pbind (Inr x) f = f x"
  by (simp add: pbind_def)

lemma getRoot_loop_returns:
  "i + n \<le> length trace \<Longrightarrow> \<exists>r. getRoot_loop n i trace = Inr r"
proof (induction n arbitrary: i)
  case 0
  show ?case by simp
next
  case (Suc n)
  from Suc.prems have inb: "idxi trace (int (length trace) - 1 - int i)
      = Inr (trace ! nat (int (length trace) - 1 - int i))"
    by (simp add: idxi_def)
  from Suc.prems have "Suc i + n \<le> length trace" by simp
  from Suc.IH [OF this] inb show ?case by auto
qed

lemma getRoot_returns: "trace \<noteq> [] \<Longrightarrow> \<exists>sp. getRoot trace = Inr sp"
proof -
  assume ne: "trace \<noteq> []"
  obtain r where r: "getRoot_loop (length trace) 0 trace = Inr r"
    using getRoot_loop_returns [of 0 "length trace" trace] by auto
  from ne have "idxi trace (int (length trace) - 1) = Inr (trace ! nat (int (length trace) - 1))"
    by (simp add: idxi_def)
  with r show ?thesis by (cases r) (simp_all add: getRoot_def)
qed

lemma dedupe_returns:
  "i + n \<le> length a \<Longrightarrow> k \<le> i \<Longrightarrow>
   \<exists>a' k'. dedupe n i a lst k = Inr (a', k') \<and> length a' = length a \<and> k' \<le> i + n"
proof (induction n arbitrary: i a lst k)
  case 0
  then show ?case by simp
next
  case (Suc n)
  from Suc.prems have i: "idx a i = Inr (a ! i)" and k: "\<And>x. upd a k x = Inr (a[k := x])"
    by (simp_all add: idx_def upd_def)
  show ?case
  proof (cases "a ! i = lst")
    case True
    from Suc.prems have "Suc i + n \<le> length a" "k \<le> Suc i" by simp_all
    from Suc.IH [OF this, of lst] i True show ?thesis by auto
  next
    case False
    from Suc.prems have "Suc i + n \<le> length (a[k := a ! i])" "Suc k \<le> Suc i" by simp_all
    from Suc.IH [OF this, of "a ! i"] i k False show ?thesis by auto
  qed
qed

lemma xor_all_returns:
  "i + n \<le> length a \<Longrightarrow> \<exists>h'. xor_all n i a h = Inr h'"
proof (induction n arbitrary: i h)
  case 0
  show ?case by simp
next
  case (Suc n)
  from Suc.prems have i: "idx a i = Inr (a ! i)" by (simp add: idx_def)
  from Suc.prems have "Suc i + n \<le> length a" by simp
  from Suc.IH [OF this, of "a ! i XOR h"] i show ?case by simp
qed

lemma ComputeSignature_returns:
  assumes "trace \<noteq> []"
  shows "\<exists>signature. ComputeSignature trace = Inr signature"
proof -
  obtain rt where rt: "getRoot trace = Inr rt"
    using getRoot_returns [OF assms] by auto
  define hs where "hs = sort (replicate (length trace) 0 @ map computeSpanHash trace)"
  have len: "length hs = 2 * length trace" by (simp add: hs_def)
  with assms have pos: "0 < length hs" by simp
  then have first: "idx hs 0 = Inr (hs ! 0)" by (simp add: idx_def)
  from pos have "1 + (length hs - 1) \<le> length hs" by simp
  from dedupe_returns [OF this, of 1 "hs ! 0"]
  obtain a' k' where d: "dedupe (length hs - 1) 1 hs (hs ! 0) 1 = Inr (a', k')"
    and la: "length a' = length hs" and k': "k' \<le> 1 + (length hs - 1)"
    by auto
  from k' pos la have "0 + k' \<le> length a'" by simp
  from xor_all_returns [OF this, of "computeRootHash rt"]
  obtain h where h: "xor_all k' 0 a' (computeRootHash rt) = Inr h" by auto
  show ?thesis
    unfolding ComputeSignature_def Let_def hs_def [symmetric]
    using rt first d h by simp
qed

lemma ComputeSignature_Nil: "ComputeSignature [] = Inl IndexOutOfRange"
  by (simp add: ComputeSignature_def getRoot_def idxi_def)

lemma ComputeSignature_nonempty: "ComputeSignature trace = Inr signature \<Longrightarrow> trace \<noteq> []"
  using ComputeSignature_Nil by auto

text \<open>
  C5.  The claim: for every trace, the empty one included, \<open>AddTrace\<close>,
  \<open>ComputeSignature\<close> and \<open>Flush\<close> complete without an error.  On the code
  this holds for every trace with at least one span: \<open>ComputeSignature\<close> returns a
  signature, \<open>AddTrace\<close> returns a sampler, and \<open>Flush\<close>, which reads no trace,
  always returns.
\<close>

theorem sampler_completes_on_nonempty_trace:
  assumes "trace \<noteq> []"
  shows "(\<exists>signature. ComputeSignature trace = Inr signature) \<and>
         (\<exists>s'. AddTrace rnd now1 now2 u trace s = Inr s') \<and>
         (\<exists>traces s'. Flush s = (traces, s'))"
proof -
  obtain signature where sg: "ComputeSignature trace = Inr signature"
    using ComputeSignature_returns [OF assms] by auto
  from assms have "idx trace 0 = Inr (trace ! 0)" by (simp add: idx_def)
  with sg show ?thesis by (simp add: AddTrace_def Let_def Flush_def)
qed

theorem sampler_completes_on_nonempty_trace_witness:
  "[span0] \<noteq> [] \<and>
   (\<exists>signature. ComputeSignature [span0] = Inr signature) \<and>
   (\<exists>s'. AddTrace (\<lambda>x. x) 0 0 0 [span0] sampler0 = Inr s') \<and>
   (\<exists>traces s'. Flush sampler0 = (traces, s'))"
  using sampler_completes_on_nonempty_trace [of "[span0]" "\<lambda>x. x" 0 0 0 sampler0] by simp

text \<open>
  On the empty trace \<open>getRoot\<close> reads \<open>trace[len(trace)-1]\<close>, that is
  \<open>trace[-1]\<close>: \<open>ComputeSignature\<close> and \<open>AddTrace\<close> panic with an index out of
  range.
\<close>

theorem empty_trace_panics:
  "ComputeSignature [] = Inl IndexOutOfRange \<and>
   AddTrace (\<lambda>x. x) 0 0 0 [] sampler0 = Inl IndexOutOfRange"
  by (simp add: AddTrace_def ComputeSignature_def getRoot_def idxi_def)

text \<open>
  C9.  \<open>Flush\<close> returns the buffer as it stands, in the order of the appends, leaves
  an empty buffer, and changes neither the last-seen map nor the configuration; a
  second \<open>Flush\<close> right after returns nothing.
\<close>

theorem Flush_returns_buffer_and_keeps_map:
  "fst (Flush s) = sampledTraces s \<and>
   sampledTraces (snd (Flush s)) = [] \<and>
   lastTSBySignature (snd (Flush s)) = lastTSBySignature s \<and>
   sMin (snd (Flush s)) = sMin s \<and> theta (snd (Flush s)) = theta s \<and>
   jitter (snd (Flush s)) = jitter s \<and>
   fst (Flush (snd (Flush s))) = []"
  by (simp add: Flush_def)

text \<open>
  C10.  When the score of a trace is at most \<open>sMin\<close>, \<open>AddTrace\<close> returns the
  sampler it was given: nothing is appended to the buffer and the last-seen time of
  the signature is not written, so every later time score is what it would have been
  without the call.
\<close>

theorem AddTrace_rejected_leaves_state:
  assumes "ComputeSignature trace = Inr signature"
    and "GetScore rnd s signature now1 u \<le> sMin s"
  shows "AddTrace rnd now1 now2 u trace s = Inr s"
proof -
  from assms(1) have "trace \<noteq> []" by (rule ComputeSignature_nonempty)
  then have "idx trace 0 = Inr (trace ! 0)" by (simp add: idx_def)
  with assms show ?thesis by (simp add: AddTrace_def Let_def)
qed

theorem AddTrace_rejected_leaves_state_witness:
  "\<exists>signature. ComputeSignature [span0] = Inr signature \<and>
     GetScore (\<lambda>x. x) (sampler0\<lparr>sMin := 10\<rparr>) signature 0 0 \<le> sMin (sampler0\<lparr>sMin := 10\<rparr>) \<and>
     AddTrace (\<lambda>x. x) 0 1 0 [span0] (sampler0\<lparr>sMin := 10\<rparr>) = Inr (sampler0\<lparr>sMin := 10\<rparr>)"
proof -
  obtain signature where sg: "ComputeSignature [span0] = Inr signature"
    using ComputeSignature_returns [of "[span0]"] by auto
  have sc: "GetScore (\<lambda>x. x) (sampler0\<lparr>sMin := 10\<rparr>) signature 0 0 \<le> sMin (sampler0\<lparr>sMin := 10\<rparr>)"
    by (simp add: GetScore_def GetTimeScore_def sampler0_def)
  from AddTrace_rejected_leaves_state [OF sg sc, of 1] sg sc show ?thesis by blast
qed















text \<open>
  C7.  When the decoder reports an error, \<open>UnmarshalJSON\<close> and \<open>GobDecode\<close> return
  that error and the receiver \<open>s\<close> itself: the assignment \<open>*s = Summary(ss)\<close> and
  the rebuilding of the skiplist come after the early return, so \<open>N\<close>, the skiplist
  and with them every quantile and \<open>BySlices\<close> are those of before the call.
\<close>

theorem decode_error_returned_receiver_unchanged:
  assumes "json_Unmarshal b = (ss, Some err)"
    and "gob_Decode b' = (ss', Some err')"
  shows "UnmarshalJSON json_Unmarshal draws b s = Inr (s, Some err) \<and>
         GobDecode gob_Decode draws' b' s = Inr (s, Some err')"
  using assms by (simp add: UnmarshalJSON_def GobDecode_def)

theorem decode_error_returned_receiver_unchanged_witness:
  "UnmarshalJSON (\<lambda>b. (\<lparr>data = None, EncodedData = [], N = 0\<rparr>, Some ''unexpected end of JSON input''))
     (\<lambda>k. 0) ''{'' NewSummary = Inr (NewSummary, Some ''unexpected end of JSON input'') \<and>
   GobDecode (\<lambda>b. (\<lparr>data = None, EncodedData = [], N = 0\<rparr>, Some ''unexpected EOF''))
     (\<lambda>k. 0) ''x'' NewSummary = Inr (NewSummary, Some ''unexpected EOF'')"
  using decode_error_returned_receiver_unchanged
    [of "\<lambda>b. (\<lparr>data = None, EncodedData = [], N = 0\<rparr>, Some ''unexpected end of JSON input'')"
        "''{''" "\<lparr>data = None, EncodedData = [], N = 0\<rparr>" "''unexpected end of JSON input''"
        "\<lambda>b. (\<lparr>data = None, EncodedData = [], N = 0\<rparr>, Some ''unexpected EOF'')"
        "''x''" "\<lparr>data = None, EncodedData = [], N = 0\<rparr>" "''unexpected EOF''"
        "\<lambda>k. 0" NewSummary "\<lambda>k. 0"]
  by simp

end
